theory Spec2Isabelle
  imports Complex_Main "HOL-Library.Multiset"
begin

unbundle bit_operations_syntax

section \<open>Random-forest tuning script: labelled points, composite, features, tuner\<close>

text \<open>
  The script \<^verbatim>\<open>base_model_tuning_and_testing.js\<close> is a client program of a raster
  and table engine. Its own code is embedded function by function under the names it
  uses. Engine operations the script calls are embedded by what they do to the values
  the script hands them; what the engine alone decides (parsing a coordinate, drawing
  the random column, rounding to single precision, training and scoring a forest, the
  quotient at a zero divisor)
  is a parameter of the embedding, and a theorem that takes it holds for any engine.
  The engine's composite and its sort, which no parameter carries, are written out as
  the specification states them; their definitions say so.
  Numbers are exact: table values and reflectances are \<^typ>\<open>real\<close>, digital numbers of
  a raw scene are \<^typ>\<open>int\<close>.
\<close>

subsection \<open>1. Configuration\<close>




definition numTreesList :: "nat list" where
  "numTreesList = [50, 100, 150, 200, 250, 300]"

subsection \<open>2. Prepare labelled points\<close>

text \<open>
  A row of the label table: the two coordinate columns, which may be absent, and the
  eight category columns, which hold numbers.
\<close>

record feature =
  lon :: "string option"
  lat :: "string option"
  Forest :: real
  Tree_Based_AG :: real
  Wet_Paddy :: real
  Grassland :: real
  Urban :: real
  Shifting_Cultivation :: real
  Non_Tree_based_agriculture :: real
  Other :: real

text \<open>The nested \<^verbatim>\<open>ee.Algorithms.If\<close> of lines 29 to 37, outermost test first.\<close>

definition classNumber :: "'a feature_scheme \<Rightarrow> nat" where
  "classNumber feature =
     (if Forest feature = 1 then 0
      else if Tree_Based_AG feature = 1 then 1
      else if Wet_Paddy feature = 1 then 2
      else if Grassland feature = 1 then 3
      else if Urban feature = 1 then 4
      else if Shifting_Cultivation feature = 1 then 5
      else if Non_Tree_based_agriculture feature = 1 then 6
      else if Other feature = 1 then 7
      else 99)"

text \<open>
  A mapped row: the row with its point geometry and the property
  \<^verbatim>\<open>target_class\<close> set.
\<close>

record point = feature +
  geometry :: "real \<times> real"
  target_class :: nat

text \<open>\<^verbatim>\<open>ee.Filter.notNull(['lon', 'lat'])\<close>.\<close>

definition notNull_lon_lat :: "'a feature_scheme \<Rightarrow> bool" where
  "notNull_lon_lat feature = (lon feature \<noteq> None \<and> lat feature \<noteq> None)"

text \<open>
  The function mapped over the filtered table (lines 24 to 41); \<^verbatim>\<open>parse\<close> is the
  engine's \<^verbatim>\<open>ee.Number.parse\<close>. It is only applied to rows that passed the filter,
  where both coordinates are present.
\<close>

definition label :: "(string \<Rightarrow> real) \<Rightarrow> feature \<Rightarrow> point" where
  "label parse feature =
     feature.extend feature
       (point.fields (parse (the (lon feature)), parse (the (lat feature)))
          (classNumber feature))"

definition points :: "(string \<Rightarrow> real) \<Rightarrow> feature list \<Rightarrow> point list" where
  "points parse table = map (label parse) (filter notNull_lon_lat table)"

text \<open>\<^verbatim>\<open>points.filter(ee.Filter.lt('target_class', 99))\<close>.\<close>

definition finalPoints :: "(string \<Rightarrow> real) \<Rightarrow> feature list \<Rightarrow> point list" where
  "finalPoints parse table = filter (\<lambda>p. target_class p < 99) (points parse table)"

text \<open>
  The eight flags of a row in the order the chain tests them. This list is the order
  the specification names; the chain itself is \<^const>\<open>classNumber\<close>.
\<close>

definition flags :: "'a feature_scheme \<Rightarrow> real list" where
  "flags feature =
     [Forest feature, Tree_Based_AG feature, Wet_Paddy feature, Grassland feature,
      Urban feature, Shifting_Cultivation feature, Non_Tree_based_agriculture feature,
      Other feature]"

subsection \<open>3. Create the predictor image\<close>

text \<open>
  A band is a raster: at every pixel \<^verbatim>\<open>p\<close> a value, or \<^verbatim>\<open>None\<close> where the band is
  masked there. The engine keeps one mask per band. An image is its properties and its
  bands in order, each under its name. A calendar date is year, month, day.
\<close>

type_synonym ('p, 'v) raster = "'p \<Rightarrow> 'v option"

type_synonym ('p, 'v) band_list = "(string \<times> ('p, 'v) raster) list"

type_synonym date = "nat \<times> nat \<times> nat"

record ('p, 'v) image =
  WRS_PATH :: int
  WRS_ROW :: int
  time_start :: date
  CLOUD_COVER :: real
  bands :: "('p, 'v) band_list"

text \<open>
  The engine's image operations that \<^verbatim>\<open>maskL8sr\<close> calls. An operation on values
  leaves a masked pixel masked.
\<close>

definition bitwiseAnd :: "('p, int) raster \<Rightarrow> int \<Rightarrow> ('p, int) raster" where
  "bitwiseAnd r m = (\<lambda>p. map_option (\<lambda>v. v AND m) (r p))"

definition eq_img :: "('p, int) raster \<Rightarrow> int \<Rightarrow> ('p, int) raster" where
  "eq_img r c = (\<lambda>p. map_option (\<lambda>v. if v = c then 1 else 0) (r p))"

text \<open>\<^verbatim>\<open>select('SR_B.*')\<close>: the bands whose whole name matches, those that start with \<^verbatim>\<open>SR_B\<close>.\<close>

definition select_SR_B :: "('p, 'v) band_list \<Rightarrow> ('p, 'v) band_list" where
  "select_SR_B bs = filter (\<lambda>(name, r). take 4 name = ''SR_B'') bs"

definition multiply :: "('p, int) band_list \<Rightarrow> real \<Rightarrow> ('p, real) band_list" where
  "multiply bs c = map (\<lambda>(name, r). (name, \<lambda>p. map_option (\<lambda>v. of_int v * c) (r p))) bs"

definition add :: "('p, real) band_list \<Rightarrow> real \<Rightarrow> ('p, real) band_list" where
  "add bs c = map (\<lambda>(name, r). (name, \<lambda>p. map_option (\<lambda>v. v + c) (r p))) bs"

text \<open>
  \<^verbatim>\<open>updateMask(mask)\<close>: every band of the image stays unmasked only where it was and where
  the mask is set and not zero.
\<close>

definition updateMask :: "('p, 'v) band_list \<Rightarrow> ('p, int) raster \<Rightarrow> ('p, 'v) band_list" where
  "updateMask bs mask' =
     map (\<lambda>(name, r). (name, \<lambda>p. (case mask' p of
                                       None \<Rightarrow> None
                                     | Some m \<Rightarrow> if m \<noteq> 0 then r p else None))) bs"

text \<open>
  The integer bands of a scene read as real-valued bands, value for value; the image
  that \<^verbatim>\<open>addBands\<close> returns holds both kinds.
\<close>

definition as_real :: "('p, int) band_list \<Rightarrow> ('p, real) band_list" where
  "as_real bs = map (\<lambda>(name, r). (name, \<lambda>p. map_option of_int (r p))) bs"

text \<open>
  \<^verbatim>\<open>dst.addBands(src, null, overwrite)\<close>: the bands of \<^verbatim>\<open>dst\<close> in their order, then the
  bands of \<^verbatim>\<open>src\<close>. With \<^verbatim>\<open>overwrite\<close>, a band of \<^verbatim>\<open>src\<close> takes the place of the band of
  \<^verbatim>\<open>dst\<close> that has its name: the whole band, values and mask. Without it, a band of
  \<^verbatim>\<open>src\<close> whose name is taken is added under that name with a suffix.
\<close>

definition addBands ::
  "('p, 'v) band_list \<Rightarrow> ('p, 'v) band_list \<Rightarrow> bool \<Rightarrow> ('p, 'v) band_list" where
  "addBands dst src overwrite =
     (if overwrite
      then map (\<lambda>(name, r). (case map_of src name of
                               None \<Rightarrow> (name, r)
                             | Some r' \<Rightarrow> (name, r'))) dst
           @ filter (\<lambda>(name, r). name \<notin> fst ` set dst) src
      else dst
           @ map (\<lambda>(name, r). (if name \<in> fst ` set dst then name @ ''_1'' else name, r)) src)"

text \<open>
  The value of a band of an image at a pixel; nothing where the band is masked there,
  and nothing where the image has no band of the name.
\<close>

definition value_at :: "('p, 'v) band_list \<Rightarrow> string \<Rightarrow> 'p \<Rightarrow> 'v option" where
  "value_at bs name p = (case map_of bs name of None \<Rightarrow> None | Some r \<Rightarrow> r p)"

text \<open>
  \<^verbatim>\<open>maskL8sr\<close>, lines 50 to 58. \<^verbatim>\<open>image.select('QA_PIXEL')\<close> fails in the engine on an
  image without that band: the result \<^verbatim>\<open>None\<close>. \<^verbatim>\<open>opticalBands\<close> is computed from
  \<^verbatim>\<open>image\<close>, the argument, and is added with \<^verbatim>\<open>overwrite\<close> to the image that
  \<^verbatim>\<open>updateMask\<close> returned. The properties of the result are those of
  \<^verbatim>\<open>image\<close>; \<^verbatim>\<open>copyProperties\<close> sets \<^verbatim>\<open>CLOUD_COVER\<close> to the value it already has.
\<close>

definition cloudMask :: int where
  "cloudMask = (push_bit 1 1 OR push_bit 3 1) OR push_bit 4 1"

definition maskL8sr :: "('p, int) image \<Rightarrow> ('p, real) image option" where
  "maskL8sr image' =
     (case map_of (bands image') ''QA_PIXEL'' of
        None \<Rightarrow> None
      | Some qa \<Rightarrow>
          (let mask = eq_img (bitwiseAnd qa cloudMask) 0;
               opticalBands = add (multiply (select_SR_B (bands image')) 0.0000275) (- 0.2)
           in Some \<lparr>WRS_PATH = WRS_PATH image', WRS_ROW = WRS_ROW image',
                     time_start = time_start image', CLOUD_COVER = CLOUD_COVER image',
                     bands = addBands (as_real (updateMask (bands image') mask))
                               opticalBands True\<rparr>))"













text \<open>Lines 79 to 82: the six reflectance bands of the composite under their new names.\<close>

definition landsatBands :: "(string \<times> string) list" where
  "landsatBands =
     [(''blue'', ''SR_B2''), (''green'', ''SR_B3''), (''red'', ''SR_B4''),
      (''nir'', ''SR_B5''), (''swir1'', ''SR_B6''), (''swir2'', ''SR_B7'')]"

definition newNames :: "string list" where
  "newNames = map fst landsatBands"

definition currentNames :: "string list" where
  "currentNames = map (\<lambda>key. the (map_of landsatBands key)) newNames"

text \<open>
  The image \<^verbatim>\<open>mosaic.select(currentNames, newNames)\<close> has exactly the six bands of
  \<^verbatim>\<open>newNames\<close>, so it is a record with one field for each; \<^verbatim>\<open>b("nir")\<close> of an expression
  evaluated on it is the field \<^verbatim>\<open>nir\<close>. The selection fails in the engine when the
  composite lacks one of \<^verbatim>\<open>currentNames\<close>.
\<close>

record 'p renamed =
  blue :: "('p, real) raster"
  green :: "('p, real) raster"
  red :: "('p, real) raster"
  nir :: "('p, real) raster"
  swir1 :: "('p, real) raster"
  swir2 :: "('p, real) raster"

definition mosaicRenamed :: "('p, real) band_list \<Rightarrow> 'p renamed option" where
  "mosaicRenamed mosaic' =
     (case map (map_of mosaic') currentNames of
        [Some b2, Some b3, Some b4, Some b5, Some b6, Some b7] \<Rightarrow>
          Some \<lparr>blue = b2, green = b3, red = b4, nir = b5, swir1 = b6, swir2 = b7\<rparr>
      | _ \<Rightarrow> None)"

text \<open>
  Arithmetic of band expressions at one pixel. An operand that is masked gives a masked
  result. The script sets neither what a quotient is where the divisor is zero nor what
  \<^verbatim>\<open>normalizedDifference\<close> is where an input is negative or the two inputs sum to zero:
  both are the engine's, and are parameters here.
\<close>

record arithmetic =
  divide_by_zero :: "real \<Rightarrow> real option"
  normalizedDifference_outside :: "real \<Rightarrow> real \<Rightarrow> real option"

definition add_px :: "real option \<Rightarrow> real option \<Rightarrow> real option" where
  "add_px a b = (case (a, b) of (Some x, Some y) \<Rightarrow> Some (x + y) | _ \<Rightarrow> None)"

definition sub_px :: "real option \<Rightarrow> real option \<Rightarrow> real option" where
  "sub_px a b = (case (a, b) of (Some x, Some y) \<Rightarrow> Some (x - y) | _ \<Rightarrow> None)"

definition mul_px :: "real option \<Rightarrow> real option \<Rightarrow> real option" where
  "mul_px a b = (case (a, b) of (Some x, Some y) \<Rightarrow> Some (x * y) | _ \<Rightarrow> None)"

definition neg_px :: "real option \<Rightarrow> real option" where
  "neg_px a = map_option uminus a"

definition div_px :: "arithmetic \<Rightarrow> real option \<Rightarrow> real option \<Rightarrow> real option" where
  "div_px ar a b =
     (case (a, b) of
        (Some x, Some y) \<Rightarrow> if y = 0 then divide_by_zero ar x else Some (x / y)
      | _ \<Rightarrow> None)"

text \<open>\<^verbatim>\<open>normalizedDifference([first, second])\<close>: (first - second) / (first + second).\<close>

definition normalizedDifference ::
  "arithmetic \<Rightarrow> ('p, real) raster \<Rightarrow> ('p, real) raster \<Rightarrow> ('p, real) raster" where
  "normalizedDifference ar first second =
     (\<lambda>p. (case (first p, second p) of
              (Some x, Some y) \<Rightarrow>
                if 0 \<le> x \<and> 0 \<le> y \<and> x + y \<noteq> 0 then Some ((x - y) / (x + y))
                else normalizedDifference_outside ar x y
            | _ \<Rightarrow> None))"

text \<open>Lines 84 to 93: each index is one band under its name.\<close>

definition getNDVI :: "arithmetic \<Rightarrow> 'p renamed \<Rightarrow> string \<times> ('p, real) raster" where
  "getNDVI ar image' = (''ndvi'', normalizedDifference ar (nir image') (red image'))"

definition getNDWI :: "arithmetic \<Rightarrow> 'p renamed \<Rightarrow> string \<times> ('p, real) raster" where
  "getNDWI ar image' = (''ndwi'', normalizedDifference ar (nir image') (swir1 image'))"

definition getSAVI :: "arithmetic \<Rightarrow> 'p renamed \<Rightarrow> string \<times> ('p, real) raster" where
  "getSAVI ar image' =
     (''savi'', \<lambda>p. div_px ar (mul_px (Some 1.5) (sub_px (nir image' p) (red image' p)))
                       (add_px (add_px (Some 0.5) (nir image' p)) (red image' p)))"

definition getPRI :: "arithmetic \<Rightarrow> 'p renamed \<Rightarrow> string \<times> ('p, real) raster" where
  "getPRI ar image' =
     (''pri'', \<lambda>p. div_px ar (sub_px (blue image' p) (green image' p))
                      (add_px (blue image' p) (green image' p)))"

definition getCAI :: "arithmetic \<Rightarrow> 'p renamed \<Rightarrow> string \<times> ('p, real) raster" where
  "getCAI ar image' = (''cai'', \<lambda>p. div_px ar (swir2 image' p) (swir1 image' p))"

definition getEVI :: "arithmetic \<Rightarrow> 'p renamed \<Rightarrow> string \<times> ('p, real) raster" where
  "getEVI ar image' =
     (''evi'', \<lambda>p. mul_px (Some 2.5)
                      (div_px ar (sub_px (nir image' p) (red image' p))
                         (add_px (sub_px (add_px (nir image' p) (mul_px (Some 6) (red image' p)))
                                    (mul_px (Some 7.5) (blue image' p)))
                            (Some 1))))"

definition getEVI2 :: "arithmetic \<Rightarrow> 'p renamed \<Rightarrow> string \<times> ('p, real) raster" where
  "getEVI2 ar image' =
     (''evi2'', \<lambda>p. div_px ar (mul_px (Some 2.5) (sub_px (nir image' p) (red image' p)))
                       (add_px (add_px (nir image' p) (mul_px (Some 2.4) (red image' p)))
                          (Some 1)))"

definition getHallCover :: "'p renamed \<Rightarrow> string \<times> ('p, real) raster" where
  "getHallCover image' =
     (''hallcover'', \<lambda>p. add_px (sub_px (sub_px (mul_px (neg_px (red image' p)) (Some 0.017))
                                              (mul_px (nir image' p) (Some 0.007)))
                                      (mul_px (swir2 image' p) (Some 0.079)))
                              (Some 5.22))"

definition getHallHeigth :: "'p renamed \<Rightarrow> string \<times> ('p, real) raster" where
  "getHallHeigth image' =
     (''hallheigth'', \<lambda>p. add_px (sub_px (sub_px (mul_px (neg_px (red image' p)) (Some 0.039))
                                               (mul_px (nir image' p) (Some 0.011)))
                                       (mul_px (swir1 image' p) (Some 0.026)))
                               (Some 4.13))"

definition getGCVI :: "arithmetic \<Rightarrow> 'p renamed \<Rightarrow> string \<times> ('p, real) raster" where
  "getGCVI ar image' =
     (''gcvi'', \<lambda>p. sub_px (div_px ar (nir image' p) (green image' p)) (Some 1))"

text \<open>Line 95: the six bands, then the ten indices, each added under a new name.\<close>

definition mosaicWithIndices :: "arithmetic \<Rightarrow> 'p renamed \<Rightarrow> ('p, real) band_list" where
  "mosaicWithIndices ar m =
     [(''blue'', blue m), (''green'', green m), (''red'', red m), (''nir'', nir m),
      (''swir1'', swir1 m), (''swir2'', swir2 m),
      getNDVI ar m, getNDWI ar m, getSAVI ar m, getPRI ar m, getCAI ar m, getEVI ar m,
      getEVI2 ar m, getHallCover m, getHallHeigth m, getGCVI ar m]"

definition allPredictors :: "string list" where
  "allPredictors =
     [''blue'', ''green'', ''red'', ''nir'', ''swir1'', ''swir2'', ''ndvi'', ''ndwi'', ''savi'',
      ''pri'', ''cai'', ''evi'', ''evi2'', ''hallcover'', ''hallheigth'', ''gcvi'']"

subsection \<open>4. Prepare training and testing data\<close>

text \<open>
  \<^verbatim>\<open>finalPoints.randomColumn('random')\<close> sets the property \<^verbatim>\<open>random\<close> of every point.
  The numbers are the engine's: \<^verbatim>\<open>keys i\<close> is the one it gives the point at position
  \<^verbatim>\<open>i\<close> of the collection.
\<close>

record keyed_point = point +
  random :: real

definition randomColumn :: "(nat \<Rightarrow> real) \<Rightarrow> point list \<Rightarrow> keyed_point list" where
  "randomColumn keys ps =
     map (\<lambda>(i, p). point.extend p (keyed_point.fields (keys i))) (enumerate 0 ps)"

text \<open>\<^verbatim>\<open>ee.Filter.lte('random', 0.8)\<close> and \<^verbatim>\<open>ee.Filter.gt('random', 0.8)\<close>.\<close>

definition trainingSet :: "keyed_point list \<Rightarrow> keyed_point list" where
  "trainingSet finalPoints' = filter (\<lambda>p. random p \<le> 0.8) finalPoints'"

definition testingSet :: "keyed_point list \<Rightarrow> keyed_point list" where
  "testingSet finalPoints' = filter (\<lambda>p. random p > 0.8) finalPoints'"

subsection \<open>5. Hyperparameter tuning loop\<close>

text \<open>
  The engine's classifier: training a random forest of a given number of trees on a
  table of examples, classifying a table, the error matrix of a classified table and
  the accuracy of a matrix. The script decides none of them, so they are parameters,
  and so are the types of their results.
\<close>

record ('ex, 'clf, 'val, 'mat, 'acc) forest =
  smileRandomForest_train :: "nat \<Rightarrow> 'ex list \<Rightarrow> 'clf"
  classify :: "'ex list \<Rightarrow> 'clf \<Rightarrow> 'val"
  errorMatrix_of :: "'val \<Rightarrow> 'mat"
  accuracy_of :: "'mat \<Rightarrow> 'acc"

text \<open>The feature the callback returns, and what it prints.\<close>

record 'acc candidate =
  trees :: nat
  accuracy :: 'acc

datatype ('mat, 'acc) printed =
  Results_for nat
  | Overall_Accuracy 'acc
  | Confusion_Matrix 'mat

text \<open>
  \<^verbatim>\<open>numTreesList.map(function (n_trees) {...})\<close>, lines 117 to 133: the callback runs
  on the elements of the list from first to last. The console is passed along: each
  run appends its three lines.
\<close>

fun results ::
  "('ex, 'clf, 'val, 'mat, 'acc) forest \<Rightarrow> 'ex list \<Rightarrow> 'ex list \<Rightarrow> nat list \<Rightarrow>
   ('mat, 'acc) printed list \<Rightarrow> 'acc candidate list \<times> ('mat, 'acc) printed list" where
  "results engine trainingData testingData [] console = ([], console)"
| "results engine trainingData testingData (n_trees # rest) console =
     (let classifier = smileRandomForest_train engine n_trees trainingData;
          validation = classify engine testingData classifier;
          errorMatrix = errorMatrix_of engine validation;
          accuracy' = accuracy_of engine errorMatrix;
          console' = console @ [Results_for n_trees, Overall_Accuracy accuracy',
                                Confusion_Matrix errorMatrix];
          (features, console'') = results engine trainingData testingData rest console'
      in (\<lparr>trees = n_trees, accuracy = accuracy'\<rparr> # features, console''))"

subsection \<open>6. Train final model\<close>

text \<open>
  Modelled from the spec: the engine's \<^verbatim>\<open>sort('accuracy', false)\<close> of a collection. The
  script does not set how features of equal accuracy are ordered; the specification
  says the sort is stable and descending by accuracy, which is an insertion sort on
  the negated accuracy.
\<close>

definition sort_accuracy_descending :: "real candidate list \<Rightarrow> real candidate list" where
  "sort_accuracy_descending resultsFC = sort_key (\<lambda>c. - accuracy c) resultsFC"

text \<open>
  Line 140. \<^verbatim>\<open>first()\<close> of an empty collection is null, and \<^verbatim>\<open>get\<close> fails on it:
  the result \<^verbatim>\<open>None\<close>.
\<close>

definition bestNumberOfTrees :: "real candidate list \<Rightarrow> nat option" where
  "bestNumberOfTrees resultsFC =
     (case sort_accuracy_descending resultsFC of
        [] \<Rightarrow> None
      | first # _ \<Rightarrow> Some (trees first))"

subsection \<open>Sample inputs\<close>

text \<open>
  Two rows of a label table: one with two flags set, Tree Based AG and Urban, and one
  with none.
\<close>

definition row_tree_urban :: feature where
  "row_tree_urban =
     \<lparr>lon = Some ''93.95'', lat = Some ''24.81'', Forest = 0, Tree_Based_AG = 1, Wet_Paddy = 0,
      Grassland = 0, Urban = 1, Shifting_Cultivation = 0, Non_Tree_based_agriculture = 0,
      Other = 0\<rparr>"

definition row_no_flag :: feature where
  "row_no_flag =
     \<lparr>lon = Some ''93.10'', lat = Some ''24.02'', Forest = 0, Tree_Based_AG = 0, Wet_Paddy = 0,
      Grassland = 0, Urban = 0, Shifting_Cultivation = 0, Non_Tree_based_agriculture = 0,
      Other = 0\<rparr>"

text \<open>
  A small classifier engine on examples that are only their class: the forest
  predicts the class of the first training example (0 when there is none), the error
  matrix is the list of pairs of true and predicted class, the accuracy is the share
  of equal pairs (0 of an empty matrix).
\<close>

definition demo_forest :: "(nat, nat, (nat \<times> nat) list, (nat \<times> nat) list, real) forest" where
  "demo_forest =
     \<lparr>smileRandomForest_train = (\<lambda>n examples. (case examples of [] \<Rightarrow> 0 | c # _ \<Rightarrow> c)),
      classify = (\<lambda>examples classifier. map (\<lambda>c. (c, classifier)) examples),
      errorMatrix_of = (\<lambda>validation. validation),
      accuracy_of = (\<lambda>m. if m = [] then 0
                           else real (length (filter (\<lambda>(actual, predicted). actual = predicted) m))
                                / real (length m))\<rparr>"

text \<open>
  Two scenes of tile (135, 41) of December 2018, each the same at every pixel. The one
  with 5 percent cloud cover has the quality value 22280, a cloud (bit 3), and bright
  reflectances; the one with 50 percent has the value 21824, clear, and dark ones.
\<close>

definition scene_cloudy :: "(nat, int) image" where
  "scene_cloudy =
     \<lparr>WRS_PATH = 135, WRS_ROW = 41, time_start = (2018, 12, 5), CLOUD_COVER = 5,
      bands = [(''SR_B2'', \<lambda>p. Some 30000), (''SR_B3'', \<lambda>p. Some 30000),
               (''SR_B4'', \<lambda>p. Some 30000), (''SR_B5'', \<lambda>p. Some 30000),
               (''SR_B6'', \<lambda>p. Some 30000), (''SR_B7'', \<lambda>p. Some 30000),
               (''QA_PIXEL'', \<lambda>p. Some 22280)]\<rparr>"


text \<open>
  A renamed composite with the reflectances blue 0.1, green 0.3, red 0.2, nir 0.4,
  swir1 0.25 and swir2 0.15 at every pixel, and one choice of the engine's arithmetic.
\<close>

definition sample_composite :: "nat renamed" where
  "sample_composite =
     \<lparr>blue = (\<lambda>p. Some 0.1), green = (\<lambda>p. Some 0.3), red = (\<lambda>p. Some 0.2),
      nir = (\<lambda>p. Some 0.4), swir1 = (\<lambda>p. Some 0.25), swir2 = (\<lambda>p. Some 0.15)\<rparr>"

definition sample_arithmetic :: arithmetic where
  "sample_arithmetic =
     \<lparr>divide_by_zero = (\<lambda>x. Some 0), normalizedDifference_outside = (\<lambda>x y. None)\<rparr>"

section \<open>Properties\<close>

subsection \<open>Labelled points and the split\<close>

lemma classNumber_first_flag:
  "classNumber f =
     (if 1 \<in> set (flags f) then length (takeWhile (\<lambda>v. v \<noteq> 1) (flags f)) else 99)"
  by (simp add: classNumber_def flags_def)

lemma target_class_label: "target_class (label parse f) = classNumber f"
  by (simp add: label_def feature.defs point.defs)

lemma classNumber_lt_99: "classNumber f < 99 \<longleftrightarrow> 1 \<in> set (flags f)"
  by (simp add: classNumber_def flags_def)

lemma classNumber_range: "classNumber f \<in> {0, 1, 2, 3, 4, 5, 6, 7, 99}"
  by (simp add: classNumber_def)

lemma classNumber_at_first_flag:
  assumes "i < length (flags f)" and "flags f ! i = 1" and "\<forall>j<i. flags f ! j \<noteq> 1"
  shows "classNumber f = i"
proof -
  have "1 \<in> set (flags f)"
    using assms(1,2) nth_mem by metis
  moreover have "takeWhile (\<lambda>v. v \<noteq> 1) (flags f) = take i (flags f)"
    by (rule takeWhile_eq_take_P_nth) (use assms in auto)
  ultimately show ?thesis
    using assms(1) by (simp add: classNumber_first_flag)
qed

lemma finalPoints_eq: "finalPoints parse table =
   map (label parse) (filter (\<lambda>f. notNull_lon_lat f \<and> 1 \<in> set (flags f)) table)"
proof -
  have "filter (\<lambda>p. target_class p < 99) (map (label parse) xs) =
        map (label parse) (filter (\<lambda>f. 1 \<in> set (flags f)) xs)" for xs
    by (induction xs) (simp_all add: target_class_label classNumber_lt_99)
  then show ?thesis
    by (simp add: finalPoints_def points_def conj_commute)
qed

lemma set_finalPoints:
  "set (finalPoints parse table) = {p \<in> set (points parse table). target_class p < 99}"
  by (simp add: finalPoints_def)

text \<open>
  C1. For every row of the table with lon and lat present, the mapped row is a point
  of \<^verbatim>\<open>points\<close>. If flag number \<^verbatim>\<open>i\<close> (counted from 0 in the order Forest, Tree Based AG,
  Wet Paddy, Grassland, Urban, Shifting Cultivation, Non-Tree based agriculture, Other)
  is the first that equals 1, its \<^verbatim>\<open>target_class\<close> is \<^verbatim>\<open>i\<close> and it is a point of
  \<^verbatim>\<open>finalPoints\<close>. If no flag equals 1, its \<^verbatim>\<open>target_class\<close> is 99 and it is not a
  point of \<^verbatim>\<open>finalPoints\<close>.
\<close>

theorem priority_chain_first_flag:
  assumes "f \<in> set table" and "lon f \<noteq> None" and "lat f \<noteq> None"
  shows "label parse f \<in> set (points parse table) \<and>
         (\<forall>i<length (flags f). flags f ! i = 1 \<and> (\<forall>j<i. flags f ! j \<noteq> 1) \<longrightarrow>
            target_class (label parse f) = i \<and>
            label parse f \<in> set (finalPoints parse table)) \<and>
         (1 \<notin> set (flags f) \<longrightarrow>
            target_class (label parse f) = 99 \<and>
            label parse f \<notin> set (finalPoints parse table))"
proof -
  have in_points: "label parse f \<in> set (points parse table)"
    using assms by (simp add: points_def notNull_lon_lat_def)
  have first: "target_class (label parse f) = i \<and> label parse f \<in> set (finalPoints parse table)"
    if "i < length (flags f)" and "flags f ! i = 1" and "\<forall>j<i. flags f ! j \<noteq> 1" for i
  proof -
    have c: "classNumber f = i"
      using that by (rule classNumber_at_first_flag)
    have "i < 8"
      using that(1) by (simp add: flags_def)
    with c in_points show ?thesis
      by (simp add: set_finalPoints target_class_label)
  qed
  have none: "target_class (label parse f) = 99 \<and> label parse f \<notin> set (finalPoints parse table)"
    if "1 \<notin> set (flags f)"
    using that by (simp add: set_finalPoints target_class_label classNumber_first_flag)
  from in_points first none show ?thesis
    by blast
qed

theorem priority_chain_first_flag_witness:
  "target_class (label (\<lambda>s. 0) row_tree_urban) = 1 \<and>
   label (\<lambda>s. 0) row_tree_urban \<in> set (finalPoints (\<lambda>s. 0) [row_no_flag, row_tree_urban]) \<and>
   target_class (label (\<lambda>s. 0) row_no_flag) = 99 \<and>
   label (\<lambda>s. 0) row_no_flag \<notin> set (finalPoints (\<lambda>s. 0) [row_no_flag, row_tree_urban])"
proof -
  let ?table = "[row_no_flag, row_tree_urban]"
  have a: "row_tree_urban \<in> set ?table" "lon row_tree_urban \<noteq> None" "lat row_tree_urban \<noteq> None"
    by (simp_all add: row_tree_urban_def)
  have b: "row_no_flag \<in> set ?table" "lon row_no_flag \<noteq> None" "lat row_no_flag \<noteq> None"
    by (simp_all add: row_no_flag_def)
  have i: "(1::nat) < length (flags row_tree_urban)" "flags row_tree_urban ! 1 = 1"
      "\<forall>j<1. flags row_tree_urban ! j \<noteq> 1"
    by (simp_all add: flags_def row_tree_urban_def)
  have n: "1 \<notin> set (flags row_no_flag)"
    by (simp add: flags_def row_no_flag_def)
  from priority_chain_first_flag [OF a, of "\<lambda>s. 0"] i
    priority_chain_first_flag [OF b, of "\<lambda>s. 0"] n
  show ?thesis
    by blast
qed

lemma truncate_extend: "point.truncate (point.extend p (keyed_point.fields k)) = p"
  by (simp add: point.defs keyed_point.defs)

lemma truncate_randomColumn: "map point.truncate (randomColumn keys ps) = ps"
proof -
  have "map point.truncate (randomColumn keys ps) = map snd (enumerate 0 ps)"
    by (simp add: randomColumn_def case_prod_unfold comp_def truncate_extend)
  then show ?thesis
    by simp
qed

lemma target_class_truncate: "target_class (point.truncate q) = target_class q"
  by (simp add: point.defs)

lemma target_class_randomColumn:
  assumes "q \<in> set (randomColumn keys ps)"
  shows "\<exists>p \<in> set ps. target_class q = target_class p"
proof -
  from assms have "point.truncate q \<in> set (map point.truncate (randomColumn keys ps))"
    by (simp only: set_map) (rule imageI)
  then have "point.truncate q \<in> set ps"
    by (simp only: truncate_randomColumn)
  then show ?thesis
    using target_class_truncate [of q] by metis
qed

lemma finalPoints_class: 
  assumes "p \<in> set (finalPoints parse table)" shows "target_class p \<in> {0..7}"
proof -
  from assms obtain f where p: "p = label parse f" and lt: "target_class p < 99"
    by (auto simp: finalPoints_def points_def)
  have "classNumber f \<in> {0, 1, 2, 3, 4, 5, 6, 7, 99}"
    by (rule classNumber_range)
  with p lt show ?thesis
    by (auto simp: target_class_label)
qed

text \<open>
  C10. The chain's result is one of 0, 1, 2, 3, 4, 5, 6, 7, 99. Every point that passes
  the filter \<^verbatim>\<open>target_class < 99\<close> has a class from 0 to 7, and so has every point of
  the training set and of the testing set drawn from them, whatever the random column.
\<close>

theorem class_codes_in_range:
  "classNumber f \<in> {0, 1, 2, 3, 4, 5, 6, 7, 99} \<and>
   (\<forall>p \<in> set (finalPoints parse table). target_class p \<in> {0..7}) \<and>
   (\<forall>p \<in> set (trainingSet (randomColumn keys (finalPoints parse table))).
      target_class p \<in> {0..7}) \<and>
   (\<forall>p \<in> set (testingSet (randomColumn keys (finalPoints parse table))).
      target_class p \<in> {0..7})"
proof -
  have keyed: "target_class q \<in> {0..7}"
    if "q \<in> set (randomColumn keys (finalPoints parse table))" for q
    using target_class_randomColumn [OF that] finalPoints_class by metis
  have "target_class q \<in> {0..7}"
    if "q \<in> set (trainingSet (randomColumn keys (finalPoints parse table)))" for q
    using that keyed by (simp add: trainingSet_def)
  moreover have "target_class q \<in> {0..7}"
    if "q \<in> set (testingSet (randomColumn keys (finalPoints parse table)))" for q
    using that keyed by (simp add: testingSet_def)
  ultimately show ?thesis
    using classNumber_range finalPoints_class by blast
qed


lemma random_extend: "random (point.extend p (keyed_point.fields k)) = k"
  by (simp add: point.defs keyed_point.defs)

lemma randomColumn_single:
  "randomColumn keys [p] = [point.extend p (keyed_point.fields (keys 0))]"
  by (simp add: randomColumn_def)

lemma finalPoints_single_tree_urban:
  "finalPoints parse [row_tree_urban] = [label parse row_tree_urban]"
  by (simp add: finalPoints_eq notNull_lon_lat_def flags_def row_tree_urban_def)

theorem class_codes_in_range_witness:
  "point.extend (label (\<lambda>s. 0) row_tree_urban) (keyed_point.fields (1 / 2))
     \<in> set (trainingSet (randomColumn (\<lambda>i. 1 / 2) (finalPoints (\<lambda>s. 0) [row_tree_urban]))) \<and>
   target_class (point.extend (label (\<lambda>s. 0) row_tree_urban) (keyed_point.fields (1 / 2)))
     \<in> {0..7}"
proof -
  let ?q = "point.extend (label (\<lambda>s. 0) row_tree_urban) (keyed_point.fields (1 / 2))"
  have m: "?q \<in> set (trainingSet (randomColumn (\<lambda>i. 1 / 2)
                        (finalPoints (\<lambda>s. 0) [row_tree_urban])))"
    by (simp add: finalPoints_single_tree_urban randomColumn_single trainingSet_def
        random_extend)
  with class_codes_in_range [of row_tree_urban "\<lambda>s. 0" "[row_tree_urban]" "\<lambda>i. 1 / 2"]
  show ?thesis
    by blast
qed

lemma mset_split: "mset (trainingSet fp) + mset (testingSet fp) = mset fp"
  unfolding trainingSet_def testingSet_def by (induction fp) auto

text \<open>
  C5. Of the surviving points with their random column, a point whose key is at most
  0.8 is in the training set and not in the testing set, and a point whose key is above
  0.8 is in the testing set and not in the training set. The two sets are disjoint,
  their union is the whole collection, no point is counted twice, and the points under
  them are exactly the surviving points.
\<close>

theorem split_is_partition:
  assumes "fp = randomColumn keys (finalPoints parse table)"
  shows "(\<forall>p \<in> set fp.
            (random p \<le> 0.8 \<longrightarrow> p \<in> set (trainingSet fp) \<and> p \<notin> set (testingSet fp)) \<and>
            (0.8 < random p \<longrightarrow> p \<in> set (testingSet fp) \<and> p \<notin> set (trainingSet fp))) \<and>
         set (trainingSet fp) \<inter> set (testingSet fp) = {} \<and>
         set (trainingSet fp) \<union> set (testingSet fp) = set fp \<and>
         mset (trainingSet fp) + mset (testingSet fp) = mset fp \<and>
         mset (map point.truncate (trainingSet fp)) + mset (map point.truncate (testingSet fp)) =
           mset (finalPoints parse table)"
proof -
  have each: "\<forall>p \<in> set fp.
      (random p \<le> 0.8 \<longrightarrow> p \<in> set (trainingSet fp) \<and> p \<notin> set (testingSet fp)) \<and>
      (0.8 < random p \<longrightarrow> p \<in> set (testingSet fp) \<and> p \<notin> set (trainingSet fp))"
    by (auto simp: trainingSet_def testingSet_def)
  have disj: "set (trainingSet fp) \<inter> set (testingSet fp) = {}"
    by (auto simp: trainingSet_def testingSet_def)
  have cover: "set (trainingSet fp) \<union> set (testingSet fp) = set fp"
    by (auto simp: trainingSet_def testingSet_def)
  have "mset (map point.truncate (trainingSet fp)) + mset (map point.truncate (testingSet fp)) =
        image_mset point.truncate (mset (trainingSet fp) + mset (testingSet fp))"
    by simp
  also have "\<dots> = mset (map point.truncate fp)"
    by (simp only: mset_split mset_map)
  also have "\<dots> = mset (finalPoints parse table)"
    by (simp only: assms truncate_randomColumn)
  finally have under: "mset (map point.truncate (trainingSet fp)) +
      mset (map point.truncate (testingSet fp)) = mset (finalPoints parse table)" .
  from each disj cover mset_split [of fp] under show ?thesis
    by blast
qed

theorem split_is_partition_witness:
  "point.extend (label (\<lambda>s. 0) row_tree_urban) (keyed_point.fields (9 / 10))
     \<in> set (testingSet (randomColumn (\<lambda>i. 9 / 10) (finalPoints (\<lambda>s. 0) [row_tree_urban]))) \<and>
   point.extend (label (\<lambda>s. 0) row_tree_urban) (keyed_point.fields (9 / 10))
     \<notin> set (trainingSet (randomColumn (\<lambda>i. 9 / 10) (finalPoints (\<lambda>s. 0) [row_tree_urban])))"
proof -
  let ?q = "point.extend (label (\<lambda>s. 0) row_tree_urban) (keyed_point.fields (9 / 10))"
  let ?fp = "randomColumn (\<lambda>i. 9 / 10) (finalPoints (\<lambda>s. 0) [row_tree_urban])"
  have m: "?q \<in> set ?fp"
    by (simp add: finalPoints_single_tree_urban randomColumn_single)
  have k: "0.8 < random ?q"
    by (simp add: random_extend)
  from split_is_partition [of ?fp "\<lambda>i. 9 / 10" "\<lambda>s. 0" "[row_tree_urban]", OF refl] m k
  show ?thesis
    by blast
qed

subsection \<open>The tuning loop and the selection\<close>

lemma results_fst:
  "fst (results engine trainingData testingData ns console) =
     map (\<lambda>n. \<lparr>trees = n,
               accuracy = accuracy_of engine (errorMatrix_of engine
                 (classify engine testingData
                    (smileRandomForest_train engine n trainingData)))\<rparr>) ns"
  by (induction ns arbitrary: console) (simp_all add: Let_def case_prod_unfold)

lemma results_snd:
  "snd (results engine trainingData testingData ns console) =
     console @ concat (map (\<lambda>n.
        [Results_for n,
         Overall_Accuracy (accuracy_of engine (errorMatrix_of engine
            (classify engine testingData (smileRandomForest_train engine n trainingData)))),
         Confusion_Matrix (errorMatrix_of engine
            (classify engine testingData (smileRandomForest_train engine n trainingData)))]) ns)"
  by (induction ns arbitrary: console) (simp_all add: Let_def case_prod_unfold)

text \<open>
  C4. For every list of tree counts the tuner returns one candidate for each value, in
  the order of the list: the tree counts of the result are the list itself. Every
  candidate carries the accuracy of the matrix of the testing data classified by the
  forest trained with its tree count on the training data, and the console shows the
  three lines of every candidate in the same order; no candidate is skipped.
\<close>

theorem one_candidate_per_tree_count:
  "map trees (fst (results engine trainingData testingData ns console)) = ns \<and>
   length (fst (results engine trainingData testingData ns console)) = length ns \<and>
   map accuracy (fst (results engine trainingData testingData ns console)) =
     map (\<lambda>n. accuracy_of engine (errorMatrix_of engine
            (classify engine testingData (smileRandomForest_train engine n trainingData)))) ns \<and>
   snd (results engine trainingData testingData ns console) =
     console @ concat (map (\<lambda>n.
        [Results_for n,
         Overall_Accuracy (accuracy_of engine (errorMatrix_of engine
            (classify engine testingData (smileRandomForest_train engine n trainingData)))),
         Confusion_Matrix (errorMatrix_of engine
            (classify engine testingData (smileRandomForest_train engine n trainingData)))]) ns)"
  by (simp add: results_fst results_snd comp_def)

theorem one_candidate_per_tree_count_witness:
  "map trees (fst (results demo_forest [0, 4] [0, 4, 0] numTreesList [])) =
     [50, 100, 150, 200, 250, 300] \<and>
   map accuracy (fst (results demo_forest [0, 4] [0, 4, 0] numTreesList [])) =
     [2 / 3, 2 / 3, 2 / 3, 2 / 3, 2 / 3, 2 / 3]"
  using one_candidate_per_tree_count [of demo_forest "[0, 4]" "[0, 4, 0]" numTreesList "[]"]
  by (simp add: numTreesList_def demo_forest_def)

text \<open>
  C3, as stated, fails. With an empty training set and an empty testing set the tuner
  does not stop: it trains and scores all six candidates of \<^verbatim>\<open>numTreesList\<close>, prints
  their eighteen lines and returns six candidates.
\<close>

theorem tuner_runs_on_empty_sets_counterexample:
  "fst (results demo_forest [] [] numTreesList []) =
     [\<lparr>trees = 50, accuracy = 0\<rparr>, \<lparr>trees = 100, accuracy = 0\<rparr>, \<lparr>trees = 150, accuracy = 0\<rparr>,
      \<lparr>trees = 200, accuracy = 0\<rparr>, \<lparr>trees = 250, accuracy = 0\<rparr>, \<lparr>trees = 300, accuracy = 0\<rparr>] \<and>
   take 3 (snd (results demo_forest [] [] numTreesList [])) =
     [Results_for 50, Overall_Accuracy 0, Confusion_Matrix []] \<and>
   length (snd (results demo_forest [] [] numTreesList [])) = 18"
  by (simp add: results_fst results_snd numTreesList_def demo_forest_def)

text \<open>
  C3, amended. The tuner has no check for empty data and no failure of its own: when
  the training set or the testing set is empty it still calls the engine's train,
  classify, error matrix and accuracy once for every tree count on the sets as they
  are, prints three lines for each and returns one candidate per tree count. What
  those calls yield on empty data is the engine's.
\<close>

theorem tuner_runs_on_empty_sets:
  assumes "trainingData = [] \<or> testingData = []"
  shows "fst (results engine trainingData testingData ns console) =
           map (\<lambda>n. \<lparr>trees = n,
                     accuracy = accuracy_of engine (errorMatrix_of engine
                       (classify engine testingData
                          (smileRandomForest_train engine n trainingData)))\<rparr>) ns \<and>
         length (snd (results engine trainingData testingData ns console)) =
           length console + 3 * length ns"
  by (simp add: results_fst results_snd length_concat comp_def sum_list_triv)

theorem tuner_runs_on_empty_sets_witness:
  "fst (results demo_forest [] [0, 4, 0] [50, 100] []) =
     [\<lparr>trees = 50, accuracy = 2 / 3\<rparr>, \<lparr>trees = 100, accuracy = 2 / 3\<rparr>]"
  using tuner_runs_on_empty_sets [of "[]" "[0, 4, 0]" demo_forest "[50, 100]" "[]"]
  by (simp add: demo_forest_def)

text \<open>
  The first element of a stable sort by a key is the first element of the list whose
  key is least.
\<close>

lemma hd_insort_key:
  "hd (insort_key f x ys) = (if ys = [] \<or> f x \<le> f (hd ys) then x else hd ys)"
  by (cases ys) simp_all

lemma find_least_key_sort_key:
  "xs \<noteq> [] \<Longrightarrow> find (\<lambda>x. \<forall>y \<in> set xs. f x \<le> f y) xs = Some (hd (sort_key f xs))"
proof (induction xs)
  case Nil
  then show ?case by simp
next
  case (Cons x xs)
  show ?case
  proof (cases "xs = []")
    case True
    then show ?thesis by simp
  next
    case False
    let ?h = "hd (sort_key f xs)"
    from Cons.IH [OF False] have h: "find (\<lambda>z. \<forall>y \<in> set xs. f z \<le> f y) xs = Some ?h" .
    then have h_in: "?h \<in> set xs" and h_least: "\<forall>y \<in> set xs. f ?h \<le> f y"
      by (auto simp: find_Some_iff)
    have ne: "sort_key f xs \<noteq> []"
      using False by (metis set_sort set_empty)
    show ?thesis
    proof (cases "f x \<le> f ?h")
      case True
      then have "\<forall>y \<in> set (x # xs). f x \<le> f y"
        using h_least by auto
      then show ?thesis
        using True by (simp add: hd_insort_key)
    next
      case less: False
      then have not_x: "\<not> (\<forall>y \<in> set (x # xs). f x \<le> f y)"
        using h_in by auto
      have "find (\<lambda>z. \<forall>y \<in> set (x # xs). f z \<le> f y) xs =
            find (\<lambda>z. \<forall>y \<in> set xs. f z \<le> f y) xs"
      proof (rule find_cong [OF refl])
        fix z assume "z \<in> set xs"
        with h_least h_in less show "(\<forall>y \<in> set (x # xs). f z \<le> f y) = (\<forall>y \<in> set xs. f z \<le> f y)"
          by (metis order_trans linear set_ConsD list.set_intros(2))
      qed
      with not_x h have "find (\<lambda>z. \<forall>y \<in> set (x # xs). f z \<le> f y) (x # xs) = Some ?h"
        by auto
      moreover have "hd (sort_key f (x # xs)) = ?h"
        using less ne by (simp add: hd_insort_key)
      ultimately show ?thesis by simp
    qed
  qed
qed

text \<open>
  C2. The selected tree count is that of the first candidate of the list whose
  accuracy no other candidate exceeds: the maximum, and among several of maximal
  accuracy the earliest. For the candidates (50, 0.80), (100, 0.85), (150, 0.85) it is
  100. An empty list has no selection.
\<close>

theorem selector_first_maximum:
  "bestNumberOfTrees resultsFC =
     map_option trees (find (\<lambda>c. \<forall>d \<in> set resultsFC. accuracy d \<le> accuracy c) resultsFC)"
proof (cases "resultsFC = []")
  case True
  then show ?thesis
    by (simp add: bestNumberOfTrees_def sort_accuracy_descending_def)
next
  case False
  then have ne: "sort_key (\<lambda>c. - accuracy c) resultsFC \<noteq> []"
    by (metis set_sort set_empty)
  have "find (\<lambda>c. \<forall>d \<in> set resultsFC. accuracy d \<le> accuracy c) resultsFC =
        Some (hd (sort_key (\<lambda>c. - accuracy c) resultsFC))"
    using find_least_key_sort_key [OF False, of "\<lambda>c. - accuracy c"] by simp
  with ne show ?thesis
    by (simp add: bestNumberOfTrees_def sort_accuracy_descending_def split: list.splits)
qed

theorem selector_first_maximum_witness:
  "bestNumberOfTrees
     [\<lparr>trees = 50, accuracy = 0.80\<rparr>, \<lparr>trees = 100, accuracy = 0.85\<rparr>,
      \<lparr>trees = 150, accuracy = 0.85\<rparr>] = Some 100"
  using selector_first_maximum
    [of "[\<lparr>trees = 50, accuracy = 0.80\<rparr>, \<lparr>trees = 100, accuracy = 0.85\<rparr>,
          \<lparr>trees = 150, accuracy = 0.85\<rparr>]"]
  by simp

subsection \<open>Masking and the composite\<close>


text \<open>Looking a band up by name in the results of the engine's image operations.\<close>

lemma map_of_map_snd:
  "map_of (map (\<lambda>(name, r). (name, g name r)) bs) name = map_option (g name) (map_of bs name)"
  by (induction bs) auto



lemma map_of_multiply:
  "map_of (multiply bs c) name =
     map_option (\<lambda>r p. map_option (\<lambda>v. of_int v * c) (r p)) (map_of bs name)"
  unfolding multiply_def by (rule map_of_map_snd)

lemma map_of_add:
  "map_of (add bs c) name = map_option (\<lambda>r p. map_option (\<lambda>v. v + c) (r p)) (map_of bs name)"
  unfolding add_def by (rule map_of_map_snd)

lemma map_of_select_SR_B:
  "map_of (select_SR_B bs) name = (if take 4 name = ''SR_B'' then map_of bs name else None)"
  unfolding select_SR_B_def by (induction bs) auto

lemma map_of_addBands_overwrite:
  "map_of (addBands dst src True) name =
     (case map_of src name of None \<Rightarrow> map_of dst name | Some r' \<Rightarrow> Some r')"
proof -
  have m: "map (\<lambda>(name, r). (case map_of src name of None \<Rightarrow> (name, r) | Some r' \<Rightarrow> (name, r'))) dst =
        map (\<lambda>(name, r). (name, (case map_of src name of None \<Rightarrow> r | Some r' \<Rightarrow> r'))) dst"
    by (auto split: option.splits)
  have f: "map_of (filter (\<lambda>(name, r). name \<notin> fst ` set dst) src) name =
        (case map_of dst name of None \<Rightarrow> map_of src name | Some r \<Rightarrow> None)"
    by (induction src) (auto split: option.splits simp: map_of_eq_None_iff [symmetric]
        simp del: map_of_eq_None_iff)
  show ?thesis
    unfolding addBands_def
    by (simp only: m if_True map_of_append map_add_def map_of_map_snd f)
      (simp split: option.splits del: map_of_eq_None_iff)
qed


text \<open>
  What \<^verbatim>\<open>maskL8sr\<close> returns, band by band. A band whose name starts with \<^verbatim>\<open>SR_B\<close> is the band of the
  argument rescaled, at every pixel: the quality value of the pixel plays no part. Any
  other band keeps its values where bits 1, 3 and 4 of the quality value are clear and
  is masked elsewhere.
\<close>

lemma maskL8sr_Some:
  assumes "map_of (bands image') ''QA_PIXEL'' = Some qa"
  shows "\<exists>out. maskL8sr image' = Some out \<and>
           bands out =
             addBands (as_real (updateMask (bands image') (eq_img (bitwiseAnd qa cloudMask) 0)))
               (add (multiply (select_SR_B (bands image')) 0.0000275) (- 0.2)) True \<and>
           CLOUD_COVER out = CLOUD_COVER image'"
  using assms by (simp add: maskL8sr_def Let_def)

lemma maskL8sr_optical_band:
  assumes "map_of (bands image') ''QA_PIXEL'' = Some qa"
    and "map_of (bands image') name = Some r"
    and "take 4 name = ''SR_B''"
  shows "\<exists>out. maskL8sr image' = Some out \<and>
           value_at (bands out) name =
             (\<lambda>p. map_option (\<lambda>v. of_int v * 0.0000275 + (- 0.2)) (r p))"
proof -
  define opticalBands where
    "opticalBands = add (multiply (select_SR_B (bands image')) 0.0000275) (- 0.2)"
  define masked where
    "masked = as_real (updateMask (bands image') (eq_img (bitwiseAnd qa cloudMask) 0))"
  from maskL8sr_Some [OF assms(1)] obtain out where
    out: "maskL8sr image' = Some out" and b: "bands out = addBands masked opticalBands True"
    unfolding opticalBands_def masked_def by blast
  have opt: "map_of opticalBands name =
        Some (\<lambda>p. map_option (\<lambda>v. of_int v * 0.0000275 + (- 0.2)) (r p))"
    unfolding opticalBands_def using assms(2,3)
    by (simp add: map_of_add map_of_multiply map_of_select_SR_B option.map_comp comp_def)
  have "value_at (bands out) name =
        (\<lambda>p. map_option (\<lambda>v. of_int v * 0.0000275 + (- 0.2)) (r p))"
    by (intro ext) (simp only: value_at_def b map_of_addBands_overwrite opt option.case)
  with out show ?thesis by blast
qed


text \<open>
  C9. The mask is not applied to all bands alike. In the cloudy sample scene, whose
  quality value has bit 3 set, \<^verbatim>\<open>maskL8sr\<close> masks the band \<^verbatim>\<open>QA_PIXEL\<close> and leaves the six
  reflectance bands unmasked, with the rescaled value 0.625.
\<close>

theorem masked_scene_keeps_cloudy_reflectance:
  "(22280 :: int) AND cloudMask = 8 \<and>
   map_option (\<lambda>out. map (\<lambda>(name, r). (name, r (0::nat))) (bands out)) (maskL8sr scene_cloudy) =
     Some [(''SR_B2'', Some (5 / 8)), (''SR_B3'', Some (5 / 8)), (''SR_B4'', Some (5 / 8)),
           (''SR_B5'', Some (5 / 8)), (''SR_B6'', Some (5 / 8)), (''SR_B7'', Some (5 / 8)),
           (''QA_PIXEL'', None)]"
  by (simp add: maskL8sr_def scene_cloudy_def cloudMask_def addBands_def as_real_def
      updateMask_def eq_img_def bitwiseAnd_def add_def multiply_def select_SR_B_def Let_def)

















subsection \<open>Derived indices\<close>

lemma px_simps:
  "add_px (Some x) (Some y) = Some (x + y)"
  "sub_px (Some x) (Some y) = Some (x - y)"
  "mul_px (Some x) (Some y) = Some (x * y)"
  "neg_px (Some x) = Some (- x)"
  "y \<noteq> 0 \<Longrightarrow> div_px ar (Some x) (Some y) = Some (x / y)"
  by (simp_all add: add_px_def sub_px_def mul_px_def neg_px_def div_px_def)

lemma normalizedDifference_inside:
  "first p = Some x \<Longrightarrow> second p = Some y \<Longrightarrow> 0 \<le> x \<Longrightarrow> 0 \<le> y \<Longrightarrow> x + y \<noteq> 0 \<Longrightarrow>
   normalizedDifference ar first second p = Some ((x - y) / (x + y))"
  by (simp add: normalizedDifference_def)

text \<open>
  C8. At a pixel where the six bands have values, every derived index is its formula
  evaluated at those values, provided the divisor of the formula is not zero (and, for
  the two normalised differences, no input is negative). At red = 0.2 and nir = 0.4
  the band ndvi is 1/3; at blue = 0.1 and green = 0.3 the band pri is -0.5.
\<close>

theorem derived_index_formulas:
  assumes "blue image' p = Some b" and "green image' p = Some g" and "red image' p = Some r"
    and "nir image' p = Some n" and "swir1 image' p = Some s1" and "swir2 image' p = Some s2"
  shows "(0 \<le> n \<and> 0 \<le> r \<and> n + r \<noteq> 0 \<longrightarrow>
            fst (getNDVI ar image') = ''ndvi'' \<and>
            snd (getNDVI ar image') p = Some ((n - r) / (n + r))) \<and>
         (0 \<le> n \<and> 0 \<le> s1 \<and> n + s1 \<noteq> 0 \<longrightarrow>
            snd (getNDWI ar image') p = Some ((n - s1) / (n + s1))) \<and>
         (0.5 + n + r \<noteq> 0 \<longrightarrow>
            snd (getSAVI ar image') p = Some (1.5 * (n - r) / (0.5 + n + r))) \<and>
         (b + g \<noteq> 0 \<longrightarrow>
            fst (getPRI ar image') = ''pri'' \<and>
            snd (getPRI ar image') p = Some ((b - g) / (b + g))) \<and>
         (s1 \<noteq> 0 \<longrightarrow> snd (getCAI ar image') p = Some (s2 / s1)) \<and>
         (n + 6 * r - 7.5 * b + 1 \<noteq> 0 \<longrightarrow>
            snd (getEVI ar image') p = Some (2.5 * (n - r) / (n + 6 * r - 7.5 * b + 1))) \<and>
         (n + 2.4 * r + 1 \<noteq> 0 \<longrightarrow>
            snd (getEVI2 ar image') p = Some (2.5 * (n - r) / (n + 2.4 * r + 1))) \<and>
         snd (getHallCover image') p = Some (- 0.017 * r - 0.007 * n - 0.079 * s2 + 5.22) \<and>
         snd (getHallHeigth image') p = Some (- 0.039 * r - 0.011 * n - 0.026 * s1 + 4.13) \<and>
         (g \<noteq> 0 \<longrightarrow> snd (getGCVI ar image') p = Some (n / g - 1))"
proof -
  have ndvi: "fst (getNDVI ar image') = ''ndvi'' \<and>
      snd (getNDVI ar image') p = Some ((n - r) / (n + r))"
    if "0 \<le> n" "0 \<le> r" "n + r \<noteq> 0"
    using that assms by (simp add: getNDVI_def normalizedDifference_inside)
  have ndwi: "snd (getNDWI ar image') p = Some ((n - s1) / (n + s1))"
    if "0 \<le> n" "0 \<le> s1" "n + s1 \<noteq> 0"
    using that assms by (simp add: getNDWI_def normalizedDifference_inside)
  have savi: "snd (getSAVI ar image') p = Some (1.5 * (n - r) / (0.5 + n + r))"
    if "0.5 + n + r \<noteq> 0"
    using that assms by (simp add: getSAVI_def px_simps)
  have pri: "fst (getPRI ar image') = ''pri'' \<and>
      snd (getPRI ar image') p = Some ((b - g) / (b + g))"
    if "b + g \<noteq> 0"
    using that assms by (simp add: getPRI_def px_simps)
  have cai: "snd (getCAI ar image') p = Some (s2 / s1)" if "s1 \<noteq> 0"
    using that assms by (simp add: getCAI_def px_simps)
  have evi: "snd (getEVI ar image') p = Some (2.5 * (n - r) / (n + 6 * r - 7.5 * b + 1))"
    if "n + 6 * r - 7.5 * b + 1 \<noteq> 0"
    using that assms by (simp add: getEVI_def px_simps)
  have evi2: "snd (getEVI2 ar image') p = Some (2.5 * (n - r) / (n + 2.4 * r + 1))"
    if "n + 2.4 * r + 1 \<noteq> 0"
    using that assms by (simp add: getEVI2_def px_simps)
  have cover: "snd (getHallCover image') p = Some (- 0.017 * r - 0.007 * n - 0.079 * s2 + 5.22)"
    using assms by (simp add: getHallCover_def px_simps)
  have height: "snd (getHallHeigth image') p =
      Some (- 0.039 * r - 0.011 * n - 0.026 * s1 + 4.13)"
    using assms by (simp add: getHallHeigth_def px_simps)
  have gcvi: "snd (getGCVI ar image') p = Some (n / g - 1)" if "g \<noteq> 0"
    using that assms by (simp add: getGCVI_def px_simps)
  from ndvi ndwi savi pri cai evi evi2 cover height gcvi show ?thesis
    by blast
qed

theorem derived_index_formulas_witness:
  "fst (getNDVI sample_arithmetic sample_composite) = ''ndvi'' \<and>
   snd (getNDVI sample_arithmetic sample_composite) 0 = Some (1 / 3) \<and>
   fst (getPRI sample_arithmetic sample_composite) = ''pri'' \<and>
   snd (getPRI sample_arithmetic sample_composite) 0 = Some (- 0.5)"
proof -
  have bands:
    "blue sample_composite 0 = Some 0.1" "green sample_composite 0 = Some 0.3"
    "red sample_composite 0 = Some 0.2" "nir sample_composite 0 = Some 0.4"
    "swir1 sample_composite 0 = Some 0.25" "swir2 sample_composite 0 = Some 0.15"
    by (simp_all add: sample_composite_def)
  have pre: "(0::real) \<le> 0.4 \<and> (0::real) \<le> 0.2 \<and> (0.4::real) + 0.2 \<noteq> 0" "(0.1::real) + 0.3 \<noteq> 0"
    by simp_all
  have v: "((0.4::real) - 0.2) / (0.4 + 0.2) = 1 / 3" "((0.1::real) - 0.3) / (0.1 + 0.3) = - 0.5"
    by simp_all
  from derived_index_formulas [OF bands, of sample_arithmetic] pre
  have "fst (getNDVI sample_arithmetic sample_composite) = ''ndvi'' \<and>
   snd (getNDVI sample_arithmetic sample_composite) 0 = Some ((0.4 - 0.2) / (0.4 + 0.2)) \<and>
   fst (getPRI sample_arithmetic sample_composite) = ''pri'' \<and>
   snd (getPRI sample_arithmetic sample_composite) 0 = Some ((0.1 - 0.3) / (0.1 + 0.3))"
    by blast
  then show ?thesis
    by (simp only: v)
qed

text \<open>
  Where a divisor is zero the value of an index is whatever the engine's arithmetic
  yields there: the script adds no test and no mask of its own.
\<close>

lemma zero_divisor_is_the_engines:
  assumes "swir1 image' p = Some 0" and "swir2 image' p = Some s2"
  shows "snd (getCAI ar image') p = divide_by_zero ar s2"
  using assms by (simp add: getCAI_def div_px_def)

lemma zero_sum_is_the_engines:
  assumes "nir image' p = Some 0" and "red image' p = Some 0"
  shows "snd (getNDVI ar image') p = normalizedDifference_outside ar 0 0"
  using assms by (simp add: getNDVI_def normalizedDifference_def)

text \<open>The bands of line 95 are those of \<^verbatim>\<open>allPredictors\<close>, in its order.\<close>

lemma names_mosaicWithIndices: "map fst (mosaicWithIndices ar m) = allPredictors"
  by (simp add: mosaicWithIndices_def allPredictors_def getNDVI_def getNDWI_def getSAVI_def
      getPRI_def getCAI_def getEVI_def getEVI2_def getHallCover_def getHallHeigth_def
      getGCVI_def)

end
